theory Spec2Isabelle
  imports Main
begin

section \<open>Exceptions, value mappings and the external collaborators\<close>

text \<open>
  The module \<^verbatim>\<open>great_expectations/core/config_provider.py\<close> is embedded function by
  function. A Python call that may raise returns \<open>exn + 'a\<close>, with \<open>Inl\<close> the exception.
  \<open>OSError\<close> carries its \<^verbatim>\<open>errno\<close> attribute, which is \<^verbatim>\<open>None\<close> when the exception was
  built without one.
\<close>

datatype exn =
    OSError "nat option"
  | ValueError string
  | TypeError string
  | AttributeError string
  | OtherError string

definition ENOENT :: nat where
  "ENOENT = 2"

text \<open>\<^verbatim>\<open>Dict[str, str]\<close>, compared as Python compares dictionaries: by content.\<close>

type_synonym str_dict = "string \<rightharpoonup> string"

text \<open>
  \<^verbatim>\<open>ConfigurationSubstitutor\<close> is imported from another module; its two methods are taken
  as they are given. \<open>substitute_all_config_variables\<close> is one Python method on \<^verbatim>\<open>Any\<close>:
  it is used at the type \<open>'c\<close> of configuration objects by \<^verbatim>\<open>substitute_config\<close> and at
  \<^verbatim>\<open>Dict[str, str]\<close> (through \<^verbatim>\<open>cast\<close>) by the variables-file provider, hence the two fields.
\<close>

record 'c ConfigurationSubstitutor =
  substitute_config_variable :: "string \<Rightarrow> str_dict \<Rightarrow> exn + string"
  substitute_all_config_variables :: "'c \<Rightarrow> str_dict \<Rightarrow> exn + 'c"
  substitute_all_config_variables_dict :: "str_dict \<Rightarrow> str_dict \<Rightarrow> exn + str_dict"

text \<open>\<^verbatim>\<open>GXCloudConfig\<close> is imported as well: a record of three strings.\<close>

record GXCloudConfig =
  base_url :: string
  access_token :: string
  organization_id :: string

text \<open>
  What a call reads from outside the module: the process environment \<^verbatim>\<open>os.environ\<close>, the
  file system (\<open>open_read p\<close> is \<^verbatim>\<open>open(p)\<close> followed by \<^verbatim>\<open>read()\<close>), the YAML loader
  \<^verbatim>\<open>yaml.load\<close> (\<open>None\<close> is Python's \<^verbatim>\<open>None\<close>, the result for an empty document, \<open>Some m\<close>
  a mapping) and the three members of the enumeration \<^verbatim>\<open>GXCloudEnvironmentVariable\<close>.
\<close>

record world =
  os_environ :: str_dict
  open_read :: "string \<Rightarrow> exn + string"
  yaml_load :: "string \<Rightarrow> exn + str_dict option"
  BASE_URL :: string
  ACCESS_TOKEN :: string
  ORGANIZATION_ID :: string

section \<open>Built-ins used by the module\<close>

text \<open>\<^verbatim>\<open>posixpath.isabs\<close>, \<^verbatim>\<open>posixpath.join\<close> on two arguments, and \<^verbatim>\<open>os.curdir\<close>.\<close>

definition isabs :: "string \<Rightarrow> bool" where
  "isabs s = (case s of [] \<Rightarrow> False | c # _ \<Rightarrow> c = CHR ''/'')"

definition join :: "string \<Rightarrow> string \<Rightarrow> string" where
  "join a b =
     (if isabs b then b
      else if a = [] then a @ b
      else if last a = CHR ''/'' then a @ b
      else a @ ''/'' @ b)"

definition curdir :: string where
  "curdir = ''.''"

text \<open>\<^verbatim>\<open>dict(x)\<close> on the loader's result: \<^verbatim>\<open>None\<close> is not iterable.\<close>

definition dict :: "str_dict option \<Rightarrow> exn + str_dict" where
  "dict x =
     (case x of
        None \<Rightarrow> Inl (TypeError ([CHR 0x27] @ ''NoneType'' @ [CHR 0x27] @ '' object is not iterable''))
      | Some m \<Rightarrow> Inr m)"

text \<open>\<^verbatim>\<open>d or e\<close> on dictionaries: the empty dictionary is false.\<close>

definition dict_or :: "str_dict \<Rightarrow> str_dict \<Rightarrow> str_dict" where
  "dict_or d e = (if d = Map.empty then e else d)"

text \<open>\<^verbatim>\<open>str_or\<close> is \<^verbatim>\<open>s or t\<close> on an optional string: \<^verbatim>\<open>None\<close> and \<^verbatim>\<open>""\<close> are false.\<close>

definition str_or :: "string option \<Rightarrow> string \<Rightarrow> string" where
  "str_or s t = (case s of None \<Rightarrow> t | Some r \<Rightarrow> if r = [] then t else r)"

text \<open>
  An \<^verbatim>\<open>OrderedDict\<close> is the list of its items in insertion order, so \<^verbatim>\<open>values()\<close> is
  \<open>map snd\<close>. Assigning to a key that is present keeps its position; assigning to a new
  key appends.
\<close>

definition od_contains :: "'k \<Rightarrow> ('k \<times> 'v) list \<Rightarrow> bool" where
  "od_contains k d = (k \<in> set (map fst d))"

fun od_setitem :: "'k \<Rightarrow> 'v \<Rightarrow> ('k \<times> 'v) list \<Rightarrow> ('k \<times> 'v) list" where
  "od_setitem k v [] = [(k, v)]"
| "od_setitem k v ((k', v') # d) =
     (if k' = k then (k, v) # d else (k', v') # od_setitem k v d)"

definition od_get :: "('k \<times> 'v) list \<Rightarrow> 'k \<Rightarrow> 'v option" where
  "od_get d k = map_of d k"

section \<open>The provider classes\<close>

text \<open>
  \<^verbatim>\<open>type(provider)\<close> ranges over the five concrete classes of the module. An instance is
  its class together with its attributes; \<^verbatim>\<open>_substitutor\<close> is \<open>None\<close> as long as no
  \<^verbatim>\<open>__init__\<close> has assigned it.
\<close>

datatype provider_type =
    ConfigurationProvider_t
  | RuntimeEnvironmentConfigurationProvider_t
  | EnvironmentConfigurationProvider_t
  | ConfigurationVariablesConfigurationProvider_t
  | CloudConfigurationProvider_t

datatype 'c provider =
    ConfigurationProvider
      "'c ConfigurationSubstitutor option" "(provider_type \<times> 'c provider) list"
  | RuntimeEnvironmentConfigurationProvider
      "'c ConfigurationSubstitutor option" str_dict
  | EnvironmentConfigurationProvider
      "'c ConfigurationSubstitutor option"
  | ConfigurationVariablesConfigurationProvider
      "'c ConfigurationSubstitutor option" string "string option"
  | CloudConfigurationProvider
      "'c ConfigurationSubstitutor option" GXCloudConfig

fun type_of :: "'c provider \<Rightarrow> provider_type" where
  "type_of (ConfigurationProvider s ps) = ConfigurationProvider_t"
| "type_of (RuntimeEnvironmentConfigurationProvider s e) =
     RuntimeEnvironmentConfigurationProvider_t"
| "type_of (EnvironmentConfigurationProvider s) = EnvironmentConfigurationProvider_t"
| "type_of (ConfigurationVariablesConfigurationProvider s p r) =
     ConfigurationVariablesConfigurationProvider_t"
| "type_of (CloudConfigurationProvider s c) = CloudConfigurationProvider_t"

fun substitutor_attr :: "'c provider \<Rightarrow> 'c ConfigurationSubstitutor option" where
  "substitutor_attr (ConfigurationProvider s ps) = s"
| "substitutor_attr (RuntimeEnvironmentConfigurationProvider s e) = s"
| "substitutor_attr (EnvironmentConfigurationProvider s) = s"
| "substitutor_attr (ConfigurationVariablesConfigurationProvider s p r) = s"
| "substitutor_attr (CloudConfigurationProvider s c) = s"

text \<open>The text Python prints for a class inside an f-string.\<close>

fun class_name :: "provider_type \<Rightarrow> string" where
  "class_name ConfigurationProvider_t = ''ConfigurationProvider''"
| "class_name RuntimeEnvironmentConfigurationProvider_t =
     ''RuntimeEnvironmentConfigurationProvider''"
| "class_name EnvironmentConfigurationProvider_t = ''EnvironmentConfigurationProvider''"
| "class_name ConfigurationVariablesConfigurationProvider_t =
     ''ConfigurationVariablesConfigurationProvider''"
| "class_name CloudConfigurationProvider_t = ''CloudConfigurationProvider''"

definition repr_type :: "provider_type \<Rightarrow> string" where
  "repr_type t =
     ''<class '' @ [CHR 0x27] @ ''great_expectations.core.config_provider.''
       @ class_name t @ [CHR 0x27] @ ''>''"

subsection \<open>Constructors\<close>

text \<open>
  \<^verbatim>\<open>AbstractConfigurationProvider.__init__\<close> assigns \<^verbatim>\<open>self._substitutor\<close>. Four of the five
  classes call it through \<^verbatim>\<open>super().__init__()\<close>; \<^verbatim>\<open>CloudConfigurationProvider.__init__\<close>
  assigns \<^verbatim>\<open>self._cloud_config\<close> and nothing else.
\<close>

definition AbstractConfigurationProvider_init ::
  "'c ConfigurationSubstitutor \<Rightarrow> 'c ConfigurationSubstitutor option" where
  "AbstractConfigurationProvider_init S = Some S"

definition ConfigurationProvider_init :: "'c ConfigurationSubstitutor \<Rightarrow> 'c provider" where
  "ConfigurationProvider_init S =
     ConfigurationProvider (AbstractConfigurationProvider_init S) []"

definition RuntimeEnvironmentConfigurationProvider_init ::
  "'c ConfigurationSubstitutor \<Rightarrow> str_dict \<Rightarrow> 'c provider" where
  "RuntimeEnvironmentConfigurationProvider_init S runtime_environment =
     RuntimeEnvironmentConfigurationProvider
       (AbstractConfigurationProvider_init S) runtime_environment"

definition EnvironmentConfigurationProvider_init ::
  "'c ConfigurationSubstitutor \<Rightarrow> 'c provider" where
  "EnvironmentConfigurationProvider_init S =
     EnvironmentConfigurationProvider (AbstractConfigurationProvider_init S)"

definition ConfigurationVariablesConfigurationProvider_init ::
  "'c ConfigurationSubstitutor \<Rightarrow> string \<Rightarrow> string option \<Rightarrow> 'c provider" where
  "ConfigurationVariablesConfigurationProvider_init S config_variables_file_path
       root_directory =
     ConfigurationVariablesConfigurationProvider
       (AbstractConfigurationProvider_init S) config_variables_file_path root_directory"

definition CloudConfigurationProvider_init :: "GXCloudConfig \<Rightarrow> 'c provider" where
  "CloudConfigurationProvider_init cloud_config =
     CloudConfigurationProvider None cloud_config"

subsection \<open>The registry of \<^verbatim>\<open>ConfigurationProvider\<close>\<close>

text \<open>
  \<^verbatim>\<open>register_provider\<close> and \<^verbatim>\<open>get_provider\<close> are methods of \<^verbatim>\<open>ConfigurationProvider\<close> only;
  on an instance of another class the attribute lookup fails. A method that mutates
  \<^verbatim>\<open>self\<close> returns its outcome together with \<^verbatim>\<open>self\<close> as it is afterwards.
\<close>

fun register_provider ::
  "'c provider \<Rightarrow> 'c provider \<Rightarrow> (exn + unit) \<times> 'c provider" where
  "register_provider (ConfigurationProvider s providers) provider =
     (let ptype = type_of provider in
      if od_contains ptype providers
      then (Inl (ValueError (''Provider of type '' @ repr_type ptype
                   @ '' has already been registered!'')),
            ConfigurationProvider s providers)
      else (Inr (), ConfigurationProvider s (od_setitem ptype provider providers)))"
| "register_provider self provider = (Inl (AttributeError ''register_provider''), self)"

fun get_provider :: "'c provider \<Rightarrow> provider_type \<Rightarrow> exn + 'c provider option" where
  "get_provider (ConfigurationProvider s providers) ptype = Inr (od_get providers ptype)"
| "get_provider self ptype = Inl (AttributeError ''get_provider'')"

subsection \<open>\<^verbatim>\<open>get_values\<close>\<close>

text \<open>
  Lines 151 to 156 of \<^verbatim>\<open>ConfigurationVariablesConfigurationProvider.get_values\<close>: the path
  that is opened.
\<close>

definition var_path :: "string option \<Rightarrow> string \<Rightarrow> string" where
  "var_path root_directory defined_path =
     (let root = (if \<not> isabs defined_path then str_or root_directory curdir else [])
      in join root defined_path)"

text \<open>
  The handler \<^verbatim>\<open>except OSError as e\<close> around the whole body: an \<^verbatim>\<open>OSError\<close> whose errno is
  not \<^verbatim>\<open>ENOENT\<close> is raised again, one whose errno is \<^verbatim>\<open>ENOENT\<close> becomes \<^verbatim>\<open>{}\<close>, and every
  other exception is not caught.
\<close>

definition except_OSError :: "exn + str_dict \<Rightarrow> exn + str_dict" where
  "except_OSError r =
     (case r of
        Inl (OSError n) \<Rightarrow> if n \<noteq> Some ENOENT then Inl (OSError n) else Inr Map.empty
      | _ \<Rightarrow> r)"

definition ConfigurationVariables_get_values ::
  "world \<Rightarrow> 'c ConfigurationSubstitutor option \<Rightarrow> string \<Rightarrow> string option
     \<Rightarrow> exn + str_dict" where
  "ConfigurationVariables_get_values w substitutor config_variables_file_path
       root_directory =
     (let env_vars = os_environ w in
      except_OSError
        (case substitutor of
           None \<Rightarrow> Inl (AttributeError ''_substitutor'')
         | Some S \<Rightarrow>
            (case substitute_config_variable S config_variables_file_path env_vars of
               Inl e \<Rightarrow> Inl e
             | Inr defined_path \<Rightarrow>
                (case open_read w (var_path root_directory defined_path) of
                   Inl e \<Rightarrow> Inl e
                 | Inr contents \<Rightarrow>
                    (case yaml_load w contents of
                       Inl e \<Rightarrow> Inl e
                     | Inr loaded \<Rightarrow>
                        (case dict loaded of
                           Inl e \<Rightarrow> Inl e
                         | Inr d \<Rightarrow>
                            (let variables = dict_or d Map.empty
                             in substitute_all_config_variables_dict S variables
                                  env_vars)))))))"

text \<open>
  \<open>get_values\<close> dispatches on the class of \<^verbatim>\<open>self\<close>. \<open>update_all\<close> is the loop of
  \<^verbatim>\<open>ConfigurationProvider.get_values\<close> over \<^verbatim>\<open>self._providers.values()\<close>, with the
  dictionary \<^verbatim>\<open>values\<close> built so far.
\<close>

fun get_values :: "world \<Rightarrow> 'c provider \<Rightarrow> exn + str_dict"
and update_all :: "world \<Rightarrow> str_dict \<Rightarrow> 'c provider list \<Rightarrow> exn + str_dict" where
  "get_values w (ConfigurationProvider s providers) =
     update_all w Map.empty (map snd providers)"
| "get_values w (RuntimeEnvironmentConfigurationProvider s runtime_environment) =
     Inr runtime_environment"
| "get_values w (EnvironmentConfigurationProvider s) = Inr (os_environ w)"
| "get_values w (ConfigurationVariablesConfigurationProvider s path root_directory) =
     ConfigurationVariables_get_values w s path root_directory"
| "get_values w (CloudConfigurationProvider s cloud_config) =
     Inr (Map.empty
            (BASE_URL w \<mapsto> base_url cloud_config,
             ACCESS_TOKEN w \<mapsto> access_token cloud_config,
             ORGANIZATION_ID w \<mapsto> organization_id cloud_config))"
| "update_all w vals [] = Inr vals"
| "update_all w vals (provider # rest) =
     (case get_values w provider of
        Inl e \<Rightarrow> Inl e
      | Inr v \<Rightarrow> update_all w (vals ++ v) rest)"

subsection \<open>\<^verbatim>\<open>substitute_config\<close>\<close>

definition substitute_config ::
  "world \<Rightarrow> 'c provider \<Rightarrow> 'c \<Rightarrow> str_dict option \<Rightarrow> exn + 'c" where
  "substitute_config w self config config_values =
     (case (case config_values of None \<Rightarrow> get_values w self | Some v \<Rightarrow> Inr v) of
        Inl e \<Rightarrow> Inl e
      | Inr vals \<Rightarrow>
         (case substitutor_attr self of
            None \<Rightarrow> Inl (AttributeError ''_substitutor'')
          | Some S \<Rightarrow> substitute_all_config_variables S config vals))"

section \<open>Calling sequences and reference definitions\<close>

text \<open>
  A caller registers the providers of a list one after the other on the same aggregating
  provider. \<open>register_each\<close> returns the outcome of every call and the aggregating
  provider as it is after the last one.
\<close>

fun register_each ::
  "'c provider \<Rightarrow> 'c provider list \<Rightarrow> (exn + unit) list \<times> 'c provider" where
  "register_each self [] = ([], self)"
| "register_each self (p # ps) =
     (let (r, self') = register_provider self p;
          (rs, self'') = register_each self' ps
      in (r # rs, self''))"

text \<open>
  The merge as the specification words it: a left-to-right fold over the outputs in
  registration order, in which a key of the later output takes the later value.
\<close>

definition merge_two :: "str_dict \<Rightarrow> str_dict \<Rightarrow> str_dict" where
  "merge_two earlier later =
     (\<lambda>k. case later k of Some v \<Rightarrow> Some v | None \<Rightarrow> earlier k)"

definition left_to_right_merge :: "str_dict list \<Rightarrow> str_dict" where
  "left_to_right_merge outputs = foldl merge_two Map.empty outputs"

text \<open>
  Modelled from the spec: the Substitution Engine (\<^verbatim>\<open>ConfigurationSubstitutor\<close>, module
  \<^verbatim>\<open>config_substitutor\<close>), which is not part of this module. It replaces each placeholder
  \<^verbatim>\<open>$NAME\<close> inside a string by the value of \<^verbatim>\<open>NAME\<close> in the given mapping and leaves a
  placeholder without a matching key as it is. A name is the longest run of letters,
  digits and underscores after the dollar sign. The theorems below hold for every
  substitutor; this one is the concrete engine of their examples.
\<close>

definition is_name_char :: "char \<Rightarrow> bool" where
  "is_name_char c =
     (c \<in> set ''ABCDEFGHIJKLMNOPQRSTUVWXYZabcdefghijklmnopqrstuvwxyz0123456789_'')"

definition placeholder_value :: "str_dict \<Rightarrow> string \<Rightarrow> string" where
  "placeholder_value vs name = (case vs name of Some v \<Rightarrow> v | None \<Rightarrow> CHR ''$'' # name)"

fun substitute_from :: "str_dict \<Rightarrow> string option \<Rightarrow> string \<Rightarrow> string" where
  "substitute_from vs None [] = []"
| "substitute_from vs (Some name) [] = placeholder_value vs name"
| "substitute_from vs None (c # cs) =
     (if c = CHR ''$'' then substitute_from vs (Some []) cs
      else c # substitute_from vs None cs)"
| "substitute_from vs (Some name) (c # cs) =
     (if is_name_char c then substitute_from vs (Some (name @ [c])) cs
      else placeholder_value vs name
             @ (if c = CHR ''$'' then substitute_from vs (Some []) cs
                else c # substitute_from vs None cs))"

definition substitute_str :: "str_dict \<Rightarrow> string \<Rightarrow> string" where
  "substitute_str vs s = substitute_from vs None s"

definition spec_substitutor :: "string ConfigurationSubstitutor" where
  "spec_substitutor =
     \<lparr> substitute_config_variable = (\<lambda>template vs. Inr (substitute_str vs template)),
       substitute_all_config_variables = (\<lambda>config vs. Inr (substitute_str vs config)),
       substitute_all_config_variables_dict =
         (\<lambda>d vs. Inr (\<lambda>k. map_option (substitute_str vs) (d k))) \<rparr>"

text \<open>
  A small file system, a loader for the documents in it and the names of the cloud
  variables, for the examples. \<open>EACCES\<close> is the errno of a permission failure.
\<close>

definition EACCES :: nat where
  "EACCES = 13"

definition example_files :: "string \<Rightarrow> exn + string" where
  "example_files p =
     (if p = ''./config_variables.yml'' then Inr ''{A: one, B: $A}''
      else if p = ''/opt/gx/uncommitted/config_variables.yml'' then Inr ''{A: one, B: $A}''
      else if p = ''/srv/project/config_variables.yml'' then Inr ''{}''
      else if p = ''./empty.yml'' then Inr []
      else if p = ''/root/secret.yml'' then Inl (OSError (Some EACCES))
      else Inl (OSError (Some ENOENT)))"

definition example_yaml :: "string \<Rightarrow> exn + str_dict option" where
  "example_yaml contents =
     (if contents = [] then Inr None
      else if contents = ''{}'' then Inr (Some Map.empty)
      else if contents = ''{A: one, B: $A}''
        then Inr (Some [''A'' \<mapsto> ''one'', ''B'' \<mapsto> ''$A''])
      else Inl (OtherError ''ParserError''))"

definition example_world :: "str_dict \<Rightarrow> world" where
  "example_world env =
     \<lparr> os_environ = env,
       open_read = example_files,
       yaml_load = example_yaml,
       BASE_URL = ''GX_CLOUD_BASE_URL'',
       ACCESS_TOKEN = ''GX_CLOUD_ACCESS_TOKEN'',
       ORGANIZATION_ID = ''GX_CLOUD_ORGANIZATION_ID'' \<rparr>"

definition example_cloud_config :: GXCloudConfig where
  "example_cloud_config =
     \<lparr> base_url = ''https://x'', access_token = ''tok'', organization_id = ''org1'' \<rparr>"

text \<open>
  Two instances of the same class that differ in their attribute, and an aggregating
  provider on which the first of them and an environment provider are registered.
\<close>

definition first_runtime :: "string provider" where
  "first_runtime =
     RuntimeEnvironmentConfigurationProvider_init spec_substitutor [''X'' \<mapsto> ''runtime'']"

definition second_runtime :: "string provider" where
  "second_runtime =
     RuntimeEnvironmentConfigurationProvider_init spec_substitutor [''X'' \<mapsto> ''other'']"

definition example_providers :: "string provider list" where
  "example_providers =
     [first_runtime, EnvironmentConfigurationProvider_init spec_substitutor]"

definition example_registered :: "string provider" where
  "example_registered =
     snd (register_each (ConfigurationProvider_init spec_substitutor) example_providers)"

section \<open>Auxiliary facts\<close>

lemma od_contains_iff: "od_contains k d = (map_of d k \<noteq> None)"
  by (simp add: od_contains_def map_of_eq_None_iff)

lemma map_of_od_setitem: "map_of (od_setitem k v d) = (map_of d)(k \<mapsto> v)"
  by (induction d) (auto simp: fun_eq_iff)

lemma od_setitem_fresh: "\<not> od_contains k d \<Longrightarrow> od_setitem k v d = d @ [(k, v)]"
  by (induction d) (auto simp: od_contains_def)

lemma register_each_distinct:
  "distinct (map type_of ps) \<Longrightarrow> \<forall>p \<in> set ps. \<not> od_contains (type_of p) d \<Longrightarrow>
   register_each (ConfigurationProvider s d) ps =
     (replicate (length ps) (Inr ()),
      ConfigurationProvider s (d @ map (\<lambda>p. (type_of p, p)) ps))"
proof (induction ps arbitrary: d)
  case Nil
  then show ?case by simp
next
  case (Cons p ps)
  have fresh: "\<not> od_contains (type_of p) d"
    using Cons.prems by simp
  have "\<forall>q \<in> set ps. \<not> od_contains (type_of q) (d @ [(type_of p, p)])"
  proof
    fix q assume q: "q \<in> set ps"
    have "type_of p \<notin> type_of ` set ps"
      using Cons.prems(1) by simp
    moreover have "type_of q \<in> type_of ` set ps"
      using q by (rule imageI)
    ultimately have "type_of q \<noteq> type_of p"
      by metis
    moreover have "\<not> od_contains (type_of q) d"
      using Cons.prems(2) q by simp
    ultimately show "\<not> od_contains (type_of q) (d @ [(type_of p, p)])"
      by (simp add: od_contains_def)
  qed
  with Cons.IH[of "d @ [(type_of p, p)]"] Cons.prems(1) fresh
  show ?case by (simp add: od_setitem_fresh)
qed

lemma get_provider_register_each:
  "get_provider (snd (register_each (ConfigurationProvider s d) ps)) t =
     Inr (case map_of d t of Some q \<Rightarrow> Some q | None \<Rightarrow> find (\<lambda>p. type_of p = t) ps)"
proof (induction ps arbitrary: d)
  case Nil
  then show ?case by (simp add: od_get_def split: option.splits)
next
  case (Cons p ps)
  show ?case
    using Cons.IH[of d] Cons.IH[of "od_setitem (type_of p) p d"]
    by (auto simp: Let_def split_beta od_contains_iff map_of_od_setitem
        split: option.splits)
qed

lemma register_each_aggregate:
  "\<exists>d'. snd (register_each (ConfigurationProvider s d) ps) = ConfigurationProvider s d'"
proof (induction ps arbitrary: d)
  case Nil
  then show ?case by simp
next
  case (Cons p ps)
  show ?case
    using Cons.IH[of d] Cons.IH[of "od_setitem (type_of p) p d"]
    by (auto simp: Let_def split_beta)
qed

lemma register_each_success:
  "i < length ps \<Longrightarrow> fst (register_each (ConfigurationProvider s d) ps) ! i = Inr () \<Longrightarrow>
   get_provider (snd (register_each (ConfigurationProvider s d) ps)) (type_of (ps ! i))
     = Inr (Some (ps ! i))"
proof (induction ps arbitrary: i d)
  case Nil
  then show ?case by simp
next
  case (Cons p ps)
  show ?case
  proof (cases i)
    case 0
    with Cons.prems(2) have fresh: "\<not> od_contains (type_of p) d"
      by (auto simp: Let_def split_beta split: if_splits)
    then show ?thesis
      using 0 get_provider_register_each[of s "od_setitem (type_of p) p d" ps "type_of p"]
      by (simp add: Let_def split_beta map_of_od_setitem)
  next
    case (Suc n)
    with Cons.prems have n: "n < length ps" by simp
    show ?thesis
    proof (cases "od_contains (type_of p) d")
      case True
      with Cons.prems(2) Suc
      have "fst (register_each (ConfigurationProvider s d) ps) ! n = Inr ()"
        by (simp add: Let_def split_beta)
      from Cons.IH[OF n this] True Suc show ?thesis
        by (simp add: Let_def split_beta)
    next
      case False
      with Cons.prems(2) Suc
      have "fst (register_each (ConfigurationProvider s (od_setitem (type_of p) p d)) ps) ! n
              = Inr ()"
        by (simp add: Let_def split_beta)
      from Cons.IH[OF n this] False Suc show ?thesis
        by (simp add: Let_def split_beta)
    qed
  qed
qed

lemma update_all_returns:
  "map (get_values w) ps = map Inr vs \<Longrightarrow> update_all w acc ps = Inr (foldl (++) acc vs)"
  by (induction ps arbitrary: acc vs) auto

lemma update_all_raises:
  "i < length ps \<Longrightarrow> get_values w (ps ! i) = Inl e \<Longrightarrow>
   \<forall>j < i. \<exists>v. get_values w (ps ! j) = Inr v \<Longrightarrow> update_all w acc ps = Inl e"
proof (induction ps arbitrary: i acc)
  case Nil
  then show ?case by simp
next
  case (Cons p ps)
  show ?case
  proof (cases i)
    case 0
    with Cons.prems show ?thesis by simp
  next
    case (Suc n)
    from Cons.prems(3) Suc obtain v where v: "get_values w p = Inr v"
      by (metis nth_Cons_0 zero_less_Suc)
    have "\<forall>j < n. \<exists>u. get_values w (ps ! j) = Inr u"
    proof (intro allI impI)
      fix j assume "j < n"
      then have "Suc j < i" using Suc by simp
      with Cons.prems(3) show "\<exists>u. get_values w (ps ! j) = Inr u"
        by (metis nth_Cons_Suc)
    qed
    with Cons.IH[of n "acc ++ v"] Cons.prems Suc v show ?thesis by simp
  qed
qed

lemma merge_two_map_add: "merge_two a b = a ++ b"
  by (simp add: merge_two_def map_add_def fun_eq_iff split: option.splits)

lemma foldl_merge_two: "foldl merge_two acc vs = foldl (++) acc vs"
  by (induction vs arbitrary: acc) (simp_all add: merge_two_map_add)

lemma foldl_map_add_later:
  "i < length vs \<Longrightarrow> (vs ! i) k = Some x \<Longrightarrow>
   \<forall>j. i < j \<and> j < length vs \<longrightarrow> (vs ! j) k = None \<Longrightarrow>
   foldl (++) acc vs k = Some x"
proof (induction vs arbitrary: acc rule: rev_induct)
  case Nil
  then show ?case by simp
next
  case (snoc v vs)
  show ?case
  proof (cases "i < length vs")
    case True
    have "v k = None"
      using snoc.prems(3)[rule_format, of "length vs"] True by simp
    moreover have "foldl (++) acc vs k = Some x"
      using snoc.IH[of acc] True snoc.prems by (auto simp: nth_append split: if_splits)
    ultimately show ?thesis by (simp add: map_add_Some_iff)
  next
    case False
    then have "i = length vs" using snoc.prems(1) by simp
    then show ?thesis using snoc.prems(2) by simp
  qed
qed

lemma foldl_map_add_absent:
  "acc k = None \<Longrightarrow> \<forall>v \<in> set vs. v k = None \<Longrightarrow> foldl (++) acc vs k = None"
  by (induction vs arbitrary: acc) simp_all

lemma dict_or_empty: "dict_or d Map.empty = d"
  by (simp add: dict_or_def)

lemma file_get_values_unfold:
  "get_values w (ConfigurationVariablesConfigurationProvider_init S path root) =
     except_OSError
       (case substitute_config_variable S path (os_environ w) of
          Inl e \<Rightarrow> Inl e
        | Inr defined_path \<Rightarrow>
           (case open_read w (var_path root defined_path) of
              Inl e \<Rightarrow> Inl e
            | Inr contents \<Rightarrow>
               (case yaml_load w contents of
                  Inl e \<Rightarrow> Inl e
                | Inr loaded \<Rightarrow>
                   (case dict loaded of
                      Inl e \<Rightarrow> Inl e
                    | Inr d \<Rightarrow> substitute_all_config_variables_dict S d (os_environ w)))))"
  by (simp add: ConfigurationVariablesConfigurationProvider_init_def
      AbstractConfigurationProvider_init_def ConfigurationVariables_get_values_def
      dict_or_empty Let_def split: sum.splits)

lemmas example_simps =
  first_runtime_def second_runtime_def example_providers_def example_registered_def
  ConfigurationProvider_init_def RuntimeEnvironmentConfigurationProvider_init_def
  EnvironmentConfigurationProvider_init_def AbstractConfigurationProvider_init_def
  example_world_def example_files_def example_yaml_def spec_substitutor_def
  substitute_str_def is_name_char_def placeholder_value_def
  var_path_def join_def isabs_def str_or_def curdir_def

section \<open>The aggregating provider\<close>

text \<open>
  Claim C1. Whatever providers of pairwise different classes are registered, one after
  the other, on a new aggregating provider, every registration succeeds, and
  \<^verbatim>\<open>get_values()\<close> of the aggregating provider returns the left-to-right merge, in
  registration order, of the outputs of the registered providers' \<^verbatim>\<open>get_values()\<close>: a key
  takes its value from the last provider whose output has it, and a key in no output is
  absent. When a provider raises, the aggregating provider raises the same exception.
\<close>

theorem aggregate_get_values_left_to_right_merge:
  assumes "distinct (map type_of ps)"
  shows "\<exists>agg.
      register_each (ConfigurationProvider_init S) ps = (replicate (length ps) (Inr ()), agg)
    \<and> (\<forall>outputs. map (get_values w) ps = map Inr outputs \<longrightarrow>
          get_values w agg = Inr (left_to_right_merge outputs)
        \<and> (\<forall>i k x. i < length outputs \<and> (outputs ! i) k = Some x
               \<and> (\<forall>j. i < j \<and> j < length outputs \<longrightarrow> (outputs ! j) k = None)
             \<longrightarrow> left_to_right_merge outputs k = Some x)
        \<and> (\<forall>k. (\<forall>v \<in> set outputs. v k = None) \<longrightarrow> left_to_right_merge outputs k = None))
    \<and> (\<forall>i e. i < length ps \<and> get_values w (ps ! i) = Inl e
             \<and> (\<forall>j < i. \<exists>v. get_values w (ps ! j) = Inr v)
          \<longrightarrow> get_values w agg = Inl e)"
proof -
  let ?agg = "ConfigurationProvider (Some S) (map (\<lambda>p. (type_of p, p)) ps)"
  have reg: "register_each (ConfigurationProvider_init S) ps
               = (replicate (length ps) (Inr ()), ?agg)"
    using register_each_distinct[OF assms, of "[]" "Some S"]
    by (simp add: ConfigurationProvider_init_def AbstractConfigurationProvider_init_def
        od_contains_def)
  have loop: "get_values w ?agg = update_all w Map.empty ps"
    by (simp add: comp_def)
  have merged: "\<forall>outputs. map (get_values w) ps = map Inr outputs \<longrightarrow>
          update_all w Map.empty ps = Inr (left_to_right_merge outputs)
        \<and> (\<forall>i k x. i < length outputs \<and> (outputs ! i) k = Some x
               \<and> (\<forall>j. i < j \<and> j < length outputs \<longrightarrow> (outputs ! j) k = None)
             \<longrightarrow> left_to_right_merge outputs k = Some x)
        \<and> (\<forall>k. (\<forall>v \<in> set outputs. v k = None) \<longrightarrow> left_to_right_merge outputs k = None)"
  proof (intro allI impI conjI)
    fix outputs
    assume "map (get_values w) ps = map Inr outputs"
    then show "update_all w Map.empty ps = Inr (left_to_right_merge outputs)"
      using update_all_returns[of w ps outputs Map.empty]
      by (simp add: left_to_right_merge_def foldl_merge_two)
  next
    fix outputs :: "str_dict list" and i k x
    assume "i < length outputs \<and> (outputs ! i) k = Some x
               \<and> (\<forall>j. i < j \<and> j < length outputs \<longrightarrow> (outputs ! j) k = None)"
    then show "left_to_right_merge outputs k = Some x"
      using foldl_map_add_later[of i outputs k x Map.empty]
      by (simp add: left_to_right_merge_def foldl_merge_two)
  next
    fix outputs :: "str_dict list" and k
    assume "\<forall>v \<in> set outputs. v k = None"
    then show "left_to_right_merge outputs k = None"
      using foldl_map_add_absent[of Map.empty k outputs]
      by (simp add: left_to_right_merge_def foldl_merge_two)
  qed
  have raised: "\<forall>i e. i < length ps \<and> get_values w (ps ! i) = Inl e
             \<and> (\<forall>j < i. \<exists>v. get_values w (ps ! j) = Inr v)
          \<longrightarrow> update_all w Map.empty ps = Inl e"
    using update_all_raises[of _ ps w _ Map.empty] by blast
  from reg merged[folded loop] raised[folded loop] show ?thesis by blast
qed

theorem aggregate_get_values_left_to_right_merge_witness:
  "distinct (map type_of example_providers)
   \<and> (\<exists>agg. register_each (ConfigurationProvider_init spec_substitutor) example_providers
               = ([Inr (), Inr ()], agg)
          \<and> get_values (example_world [''X'' \<mapsto> ''envval'']) agg
               = Inr [''X'' \<mapsto> ''envval''])"
proof -
  let ?w = "example_world [''X'' \<mapsto> ''envval'']"
  let ?outputs = "[[''X'' \<mapsto> ''runtime''], [''X'' \<mapsto> ''envval'']]"
  have d: "distinct (map type_of example_providers)"
    by (simp add: example_simps)
  have o: "map (get_values ?w) example_providers = map Inr ?outputs"
    by (simp add: example_simps)
  have m: "left_to_right_merge ?outputs = [''X'' \<mapsto> ''envval'']"
    by (simp add: left_to_right_merge_def merge_two_map_add)
  have n: "replicate (length example_providers) (Inr () :: exn + unit) = [Inr (), Inr ()]"
    by (simp add: example_providers_def)
  from aggregate_get_values_left_to_right_merge[OF d, of spec_substitutor ?w]
  obtain agg where
    reg: "register_each (ConfigurationProvider_init spec_substitutor) example_providers
            = (replicate (length example_providers) (Inr ()), agg)"
    and merged: "\<forall>outputs. map (get_values ?w) example_providers = map Inr outputs \<longrightarrow>
          get_values ?w agg = Inr (left_to_right_merge outputs)"
    by blast
  from merged o have "get_values ?w agg = Inr (left_to_right_merge ?outputs)"
    by blast
  with reg d m n show ?thesis by auto
qed

text \<open>
  Claim C3. \<^verbatim>\<open>register_provider\<close> with a provider whose class is already registered
  raises (the \<^verbatim>\<open>ValueError\<close> of line 74, the duplicate-provider error) and leaves the
  aggregating provider as it was: the instance registered first is still what
  \<^verbatim>\<open>get_provider\<close> returns for that class, and the registry has the same entries in the
  same order.
\<close>

theorem register_provider_duplicate_raises_and_keeps_registry:
  assumes "get_provider self (type_of p) = Inr (Some q)"
  shows "register_provider self p =
           (Inl (ValueError (''Provider of type '' @ repr_type (type_of p)
                   @ '' has already been registered!'')), self)
       \<and> get_provider (snd (register_provider self p)) (type_of p) = Inr (Some q)"
proof (cases self)
  case (ConfigurationProvider s providers)
  with assms have "od_contains (type_of p) providers"
    by (simp add: od_contains_iff od_get_def)
  with ConfigurationProvider assms show ?thesis by simp
qed (use assms in simp_all)

theorem register_provider_duplicate_raises_and_keeps_registry_witness:
  "get_provider example_registered (type_of second_runtime) = Inr (Some first_runtime)
   \<and> register_provider example_registered second_runtime =
       (Inl (ValueError (''Provider of type '' @ repr_type (type_of second_runtime)
               @ '' has already been registered!'')), example_registered)
   \<and> get_provider (snd (register_provider example_registered second_runtime))
       (type_of second_runtime) = Inr (Some first_runtime)"
proof -
  have h: "get_provider example_registered (type_of second_runtime)
             = Inr (Some first_runtime)"
    by (simp add: example_simps od_contains_def od_get_def)
  from register_provider_duplicate_raises_and_keeps_registry[OF h] h
  show ?thesis by simp
qed

text \<open>
  Claim C8. After any sequence of \<^verbatim>\<open>register_provider\<close> calls on a new aggregating
  provider, \<^verbatim>\<open>get_provider(kind)\<close> returns the first provider of that class in the
  sequence: every instance whose registration succeeded is returned for its class, and
  the result is \<^verbatim>\<open>None\<close>, not an exception, when no provider of that class was registered.
\<close>

theorem get_provider_registered_or_absent:
  "get_provider (snd (register_each (ConfigurationProvider_init S) ps)) t
     = Inr (find (\<lambda>p. type_of p = t) ps)
   \<and> (\<forall>i. i < length ps
          \<and> fst (register_each (ConfigurationProvider_init S) ps) ! i = Inr ()
        \<longrightarrow> get_provider (snd (register_each (ConfigurationProvider_init S) ps))
              (type_of (ps ! i)) = Inr (Some (ps ! i)))
   \<and> ((\<forall>p \<in> set ps. type_of p \<noteq> t)
        \<longrightarrow> get_provider (snd (register_each (ConfigurationProvider_init S) ps)) t
              = Inr None)"
proof (intro conjI allI impI)
  show eq: "get_provider (snd (register_each (ConfigurationProvider_init S) ps)) t
     = Inr (find (\<lambda>p. type_of p = t) ps)"
    using get_provider_register_each[of "Some S" "[]" ps t]
    by (simp add: ConfigurationProvider_init_def AbstractConfigurationProvider_init_def)
  assume "\<forall>p \<in> set ps. type_of p \<noteq> t"
  then have "find (\<lambda>p. type_of p = t) ps = None"
    by (simp add: find_None_iff)
  with eq show "get_provider (snd (register_each (ConfigurationProvider_init S) ps)) t
              = Inr None"
    by simp
next
  fix i
  assume "i < length ps
          \<and> fst (register_each (ConfigurationProvider_init S) ps) ! i = Inr ()"
  then show "get_provider (snd (register_each (ConfigurationProvider_init S) ps))
              (type_of (ps ! i)) = Inr (Some (ps ! i))"
    using register_each_success[of i ps "Some S" "[]"]
    by (simp add: ConfigurationProvider_init_def AbstractConfigurationProvider_init_def)
qed

theorem get_provider_registered_or_absent_witness:
  "fst (register_each (ConfigurationProvider_init spec_substitutor) example_providers) ! 0
     = Inr ()
   \<and> get_provider example_registered RuntimeEnvironmentConfigurationProvider_t
       = Inr (Some first_runtime)
   \<and> CloudConfigurationProvider_t \<notin> type_of ` set example_providers
   \<and> get_provider example_registered CloudConfigurationProvider_t = Inr None"
proof -
  have l: "0 < length example_providers"
    by (simp add: example_providers_def)
  have s: "fst (register_each (ConfigurationProvider_init spec_substitutor)
             example_providers) ! 0 = Inr ()"
    by (simp add: example_simps od_contains_def)
  have z: "example_providers ! 0 = first_runtime"
    by (simp add: example_providers_def)
  have t: "type_of first_runtime = RuntimeEnvironmentConfigurationProvider_t"
    by (simp add: example_simps)
  have a: "CloudConfigurationProvider_t \<notin> type_of ` set example_providers"
    by (simp add: example_simps)
  have a': "\<forall>p \<in> set example_providers. type_of p \<noteq> CloudConfigurationProvider_t"
    using a by (auto simp: image_iff)
  note inst = get_provider_registered_or_absent[of spec_substitutor example_providers
      CloudConfigurationProvider_t]
  from inst l s
  have "get_provider example_registered (type_of (example_providers ! 0))
          = Inr (Some (example_providers ! 0))"
    unfolding example_registered_def by blast
  then have r1: "get_provider example_registered RuntimeEnvironmentConfigurationProvider_t
                   = Inr (Some first_runtime)"
    by (simp add: z t)
  from inst a'
  have r2: "get_provider example_registered CloudConfigurationProvider_t = Inr None"
    unfolding example_registered_def by blast
  from s r1 a r2 show ?thesis by simp
qed

section \<open>The process-environment and cloud-credentials providers\<close>

text \<open>
  Claim C10. \<^verbatim>\<open>get_values()\<close> of the process-environment provider returns the process
  environment as it is when the call is made: the instance stores no environment, and
  two calls return equal mappings exactly when the environment is the same at both.
\<close>

theorem environment_get_values_is_current_environment:
  "get_values w (EnvironmentConfigurationProvider_init S) = Inr (os_environ w)
   \<and> (get_values w1 (EnvironmentConfigurationProvider_init S)
        = get_values w2 (EnvironmentConfigurationProvider_init S)
      \<longleftrightarrow> os_environ w1 = os_environ w2)"
  by (simp add: EnvironmentConfigurationProvider_init_def)

text \<open>
  Claim C7. For every cloud configuration record, \<^verbatim>\<open>get_values()\<close> of the
  cloud-credentials provider returns, without raising, a mapping whose keys are the three
  variable names, three entries when the names differ, bound to the record's
  \<^verbatim>\<open>base_url\<close>, \<^verbatim>\<open>access_token\<close> and \<^verbatim>\<open>organization_id\<close>; the result is the same whatever the
  process environment and the file system are.
\<close>

theorem cloud_get_values_three_entries:
  assumes "distinct [BASE_URL w, ACCESS_TOKEN w, ORGANIZATION_ID w]"
  shows "\<exists>m. get_values w (CloudConfigurationProvider_init cloud_config) = Inr m
           \<and> dom m = {BASE_URL w, ACCESS_TOKEN w, ORGANIZATION_ID w}
           \<and> card (dom m) = 3
           \<and> m (BASE_URL w) = Some (base_url cloud_config)
           \<and> m (ACCESS_TOKEN w) = Some (access_token cloud_config)
           \<and> m (ORGANIZATION_ID w) = Some (organization_id cloud_config)
           \<and> (\<forall>env fs. get_values (w\<lparr>os_environ := env, open_read := fs\<rparr>)
                  (CloudConfigurationProvider_init cloud_config) = Inr m)"
  using assms by (auto simp: CloudConfigurationProvider_init_def)

theorem cloud_get_values_three_entries_witness:
  "distinct [BASE_URL (example_world Map.empty), ACCESS_TOKEN (example_world Map.empty),
             ORGANIZATION_ID (example_world Map.empty)]
   \<and> (\<exists>m. get_values (example_world Map.empty)
              (CloudConfigurationProvider_init example_cloud_config :: string provider) = Inr m
          \<and> card (dom m) = 3
          \<and> m ''GX_CLOUD_BASE_URL'' = Some ''https://x''
          \<and> m ''GX_CLOUD_ACCESS_TOKEN'' = Some ''tok''
          \<and> m ''GX_CLOUD_ORGANIZATION_ID'' = Some ''org1'')"
proof -
  let ?w = "example_world Map.empty"
  have d: "distinct [BASE_URL ?w, ACCESS_TOKEN ?w, ORGANIZATION_ID ?w]"
    by (simp add: example_world_def)
  from cloud_get_values_three_entries[OF d, of example_cloud_config]
  obtain m where
    m: "get_values ?w (CloudConfigurationProvider_init example_cloud_config :: string provider)
          = Inr m"
    and c: "card (dom m) = 3"
    and b: "m (BASE_URL ?w) = Some (base_url example_cloud_config)"
    and a: "m (ACCESS_TOKEN ?w) = Some (access_token example_cloud_config)"
    and g: "m (ORGANIZATION_ID ?w) = Some (organization_id example_cloud_config)"
    by blast
  have "m ''GX_CLOUD_BASE_URL'' = Some ''https://x''"
    using b by (simp add: example_world_def example_cloud_config_def)
  moreover have "m ''GX_CLOUD_ACCESS_TOKEN'' = Some ''tok''"
    using a by (simp add: example_world_def example_cloud_config_def)
  moreover have "m ''GX_CLOUD_ORGANIZATION_ID'' = Some ''org1''"
    using g by (simp add: example_world_def example_cloud_config_def)
  ultimately show ?thesis using d m c by blast
qed

section \<open>\<^verbatim>\<open>substitute_config\<close>\<close>

text \<open>
  The four classes whose \<^verbatim>\<open>__init__\<close> reaches \<^verbatim>\<open>AbstractConfigurationProvider.__init__\<close>:
  with the values omitted, \<^verbatim>\<open>substitute_config\<close> calls \<^verbatim>\<open>get_values()\<close> and hands the
  configuration and the resulting mapping to the substitutor.
\<close>

lemma substitute_config_delegates:
  assumes "self = ConfigurationProvider_init S
         \<or> self = RuntimeEnvironmentConfigurationProvider_init S env
         \<or> self = EnvironmentConfigurationProvider_init S
         \<or> self = ConfigurationVariablesConfigurationProvider_init S path root"
  shows "substitute_config w self config None =
           (case get_values w self of
              Inl e \<Rightarrow> Inl e
            | Inr vals \<Rightarrow> substitute_all_config_variables S config vals)"
  using assms
  by (auto simp: substitute_config_def ConfigurationProvider_init_def
      RuntimeEnvironmentConfigurationProvider_init_def
      EnvironmentConfigurationProvider_init_def
      ConfigurationVariablesConfigurationProvider_init_def
      AbstractConfigurationProvider_init_def
      split: sum.splits)

lemma cloud_substitute_config_raises:
  "substitute_config w (CloudConfigurationProvider_init cloud_config) config config_values
     = Inl (AttributeError ''_substitutor'')"
  by (simp add: substitute_config_def CloudConfigurationProvider_init_def
      split: option.splits)

text \<open>
  Claim C5. Every provider class is to substitute a configuration against its own
  \<^verbatim>\<open>get_values()\<close> when the values are omitted. \<^verbatim>\<open>CloudConfigurationProvider.__init__\<close> does
  not call \<^verbatim>\<open>super().__init__()\<close>, so the instance has no \<^verbatim>\<open>_substitutor\<close>: on the record
  of the specification's example, \<^verbatim>\<open>substitute_config\<close> returns from \<^verbatim>\<open>get_values()\<close> and
  then raises \<^verbatim>\<open>AttributeError\<close> instead of substituting.
\<close>

theorem cloud_substitute_config_attribute_error:
  "get_values (example_world [''NAME'' \<mapsto> ''world''])
     (CloudConfigurationProvider_init example_cloud_config :: string provider)
     = Inr [''GX_CLOUD_BASE_URL'' \<mapsto> ''https://x'', ''GX_CLOUD_ACCESS_TOKEN'' \<mapsto> ''tok'',
            ''GX_CLOUD_ORGANIZATION_ID'' \<mapsto> ''org1'']
   \<and> substitute_config (example_world [''NAME'' \<mapsto> ''world''])
       (CloudConfigurationProvider_init example_cloud_config) ''hello $GX_CLOUD_BASE_URL'' None
     = Inl (AttributeError ''_substitutor'')
   \<and> substitute_config (example_world [''NAME'' \<mapsto> ''world''])
       (EnvironmentConfigurationProvider_init spec_substitutor) ''hello $NAME'' None
     = Inr ''hello world''"
  by (simp add: substitute_config_def CloudConfigurationProvider_init_def
      example_cloud_config_def example_simps)

section \<open>The variables-file provider\<close>

text \<open>
  Claim C2. When opening or reading the resolved file fails with an \<^verbatim>\<open>OSError\<close> whose
  errno is \<^verbatim>\<open>ENOENT\<close>, \<^verbatim>\<open>get_values()\<close> returns the empty mapping and raises nothing; any
  other exception of the read is raised to the caller as it is.
\<close>

theorem variables_file_only_not_found_tolerated:
  assumes "substitute_config_variable S path (os_environ w) = Inr defined_path"
  shows "(open_read w (var_path root defined_path) = Inl (OSError (Some ENOENT)) \<longrightarrow>
            get_values w (ConfigurationVariablesConfigurationProvider_init S path root)
              = Inr Map.empty)
       \<and> (\<forall>e. open_read w (var_path root defined_path) = Inl e
               \<and> e \<noteq> OSError (Some ENOENT) \<longrightarrow>
            get_values w (ConfigurationVariablesConfigurationProvider_init S path root)
              = Inl e)"
proof (intro conjI allI impI)
  assume "open_read w (var_path root defined_path) = Inl (OSError (Some ENOENT))"
  then show "get_values w (ConfigurationVariablesConfigurationProvider_init S path root)
              = Inr Map.empty"
    using assms by (simp add: file_get_values_unfold except_OSError_def)
next
  fix e
  assume "open_read w (var_path root defined_path) = Inl e \<and> e \<noteq> OSError (Some ENOENT)"
  then show "get_values w (ConfigurationVariablesConfigurationProvider_init S path root)
               = Inl e"
    using assms by (cases e) (simp_all add: file_get_values_unfold except_OSError_def)
qed

theorem variables_file_only_not_found_tolerated_witness:
  "substitute_config_variable spec_substitutor ''missing.yml''
       (os_environ (example_world Map.empty)) = Inr ''missing.yml''
   \<and> open_read (example_world Map.empty) (var_path None ''missing.yml'')
       = Inl (OSError (Some ENOENT))
   \<and> get_values (example_world Map.empty)
       (ConfigurationVariablesConfigurationProvider_init spec_substitutor ''missing.yml'' None)
       = Inr Map.empty
   \<and> substitute_config_variable spec_substitutor ''/root/secret.yml''
       (os_environ (example_world Map.empty)) = Inr ''/root/secret.yml''
   \<and> open_read (example_world Map.empty) (var_path None ''/root/secret.yml'')
       = Inl (OSError (Some EACCES))
   \<and> OSError (Some EACCES) \<noteq> OSError (Some ENOENT)
   \<and> get_values (example_world Map.empty)
       (ConfigurationVariablesConfigurationProvider_init spec_substitutor
          ''/root/secret.yml'' None)
       = Inl (OSError (Some EACCES))"
proof -
  let ?w = "example_world Map.empty"
  have s1: "substitute_config_variable spec_substitutor ''missing.yml'' (os_environ ?w)
              = Inr ''missing.yml''"
    by (simp add: example_simps)
  have o1: "open_read ?w (var_path None ''missing.yml'') = Inl (OSError (Some ENOENT))"
    by (simp add: example_simps)
  have s2: "substitute_config_variable spec_substitutor ''/root/secret.yml'' (os_environ ?w)
              = Inr ''/root/secret.yml''"
    by (simp add: example_simps)
  have o2: "open_read ?w (var_path None ''/root/secret.yml'') = Inl (OSError (Some EACCES))"
    by (simp add: example_simps)
  have ne: "OSError (Some EACCES) \<noteq> OSError (Some ENOENT)"
    by (simp add: EACCES_def ENOENT_def)
  from variables_file_only_not_found_tolerated[OF s1, of None] o1
  have r1: "get_values ?w
       (ConfigurationVariablesConfigurationProvider_init spec_substitutor ''missing.yml'' None)
       = Inr Map.empty"
    by blast
  from variables_file_only_not_found_tolerated[OF s2, of None] o2 ne
  have r2: "get_values ?w
       (ConfigurationVariablesConfigurationProvider_init spec_substitutor
          ''/root/secret.yml'' None)
       = Inl (OSError (Some EACCES))"
    by blast
  from s1 o1 r1 s2 o2 ne r2 show ?thesis by blast
qed

text \<open>
  Claim C6. The configured path expression is first substituted against the process
  environment of the moment of the call. An absolute result is the path that is opened;
  a relative one is joined with the root directory given at construction, and with
  \<^verbatim>\<open>os.curdir\<close>, which names the current working directory, when none (or the empty
  string) was given. What \<^verbatim>\<open>get_values()\<close> returns depends on the file system through the
  file at this path only.
\<close>

theorem variables_file_path_resolution:
  assumes "substitute_config_variable S path (os_environ w) = Inr defined_path"
  shows "(isabs defined_path \<longrightarrow> var_path root defined_path = defined_path)
       \<and> (\<not> isabs defined_path \<longrightarrow>
            (\<forall>r. root = Some r \<and> r \<noteq> [] \<longrightarrow>
               var_path root defined_path = join r defined_path)
          \<and> (root = None \<or> root = Some [] \<longrightarrow>
               var_path root defined_path = join curdir defined_path))
       \<and> (\<forall>e. open_read w (var_path root defined_path) = Inl e \<longrightarrow>
            get_values w (ConfigurationVariablesConfigurationProvider_init S path root)
              = except_OSError (Inl e))
       \<and> (\<forall>w'. os_environ w' = os_environ w \<and> yaml_load w' = yaml_load w
              \<and> open_read w' (var_path root defined_path)
                  = open_read w (var_path root defined_path) \<longrightarrow>
            get_values w' (ConfigurationVariablesConfigurationProvider_init S path root)
              = get_values w (ConfigurationVariablesConfigurationProvider_init S path root))"
proof (intro conjI)
  show "isabs defined_path \<longrightarrow> var_path root defined_path = defined_path"
    by (simp add: var_path_def join_def)
  show "\<not> isabs defined_path \<longrightarrow>
            (\<forall>r. root = Some r \<and> r \<noteq> [] \<longrightarrow>
               var_path root defined_path = join r defined_path)
          \<and> (root = None \<or> root = Some [] \<longrightarrow>
               var_path root defined_path = join curdir defined_path)"
    by (auto simp: var_path_def str_or_def)
  show "\<forall>e. open_read w (var_path root defined_path) = Inl e \<longrightarrow>
            get_values w (ConfigurationVariablesConfigurationProvider_init S path root)
              = except_OSError (Inl e)"
    using assms by (simp add: file_get_values_unfold)
  show "\<forall>w'. os_environ w' = os_environ w \<and> yaml_load w' = yaml_load w
              \<and> open_read w' (var_path root defined_path)
                  = open_read w (var_path root defined_path) \<longrightarrow>
            get_values w' (ConfigurationVariablesConfigurationProvider_init S path root)
              = get_values w (ConfigurationVariablesConfigurationProvider_init S path root)"
    using assms by (auto simp: file_get_values_unfold split: sum.splits)
qed

theorem variables_file_path_resolution_witness:
  "substitute_config_variable spec_substitutor ''$GX_HOME/uncommitted/config_variables.yml''
       (os_environ (example_world [''GX_HOME'' \<mapsto> ''/opt/gx'']))
     = Inr ''/opt/gx/uncommitted/config_variables.yml''
   \<and> isabs ''/opt/gx/uncommitted/config_variables.yml''
   \<and> var_path (Some ''/srv/project'') ''/opt/gx/uncommitted/config_variables.yml''
       = ''/opt/gx/uncommitted/config_variables.yml''
   \<and> substitute_config_variable spec_substitutor ''config_variables.yml''
       (os_environ (example_world [''GX_HOME'' \<mapsto> ''/opt/gx'']))
     = Inr ''config_variables.yml''
   \<and> \<not> isabs ''config_variables.yml''
   \<and> var_path (Some ''/srv/project'') ''config_variables.yml''
       = ''/srv/project/config_variables.yml''
   \<and> var_path None ''config_variables.yml'' = ''./config_variables.yml''
   \<and> var_path (Some []) ''config_variables.yml'' = ''./config_variables.yml''"
proof -
  let ?w = "example_world [''GX_HOME'' \<mapsto> ''/opt/gx'']"
  have sa: "substitute_config_variable spec_substitutor
              ''$GX_HOME/uncommitted/config_variables.yml'' (os_environ ?w)
            = Inr ''/opt/gx/uncommitted/config_variables.yml''"
    by (simp add: example_simps)
  have ia: "isabs ''/opt/gx/uncommitted/config_variables.yml''"
    by (simp add: isabs_def)
  have sb: "substitute_config_variable spec_substitutor ''config_variables.yml''
              (os_environ ?w) = Inr ''config_variables.yml''"
    by (simp add: example_simps)
  have ib: "\<not> isabs ''config_variables.yml''"
    by (simp add: isabs_def)
  have j1: "join ''/srv/project'' ''config_variables.yml''
              = ''/srv/project/config_variables.yml''"
    by (simp add: join_def isabs_def)
  have j2: "join curdir ''config_variables.yml'' = ''./config_variables.yml''"
    by (simp add: join_def isabs_def curdir_def)
  from variables_file_path_resolution[OF sa, of "Some ''/srv/project''"] ia
  have r1: "var_path (Some ''/srv/project'') ''/opt/gx/uncommitted/config_variables.yml''
              = ''/opt/gx/uncommitted/config_variables.yml''"
    by blast
  from variables_file_path_resolution[OF sb, of "Some ''/srv/project''"] ib
  have "var_path (Some ''/srv/project'') ''config_variables.yml''
          = join ''/srv/project'' ''config_variables.yml''"
    by simp
  with j1 have r2: "var_path (Some ''/srv/project'') ''config_variables.yml''
                      = ''/srv/project/config_variables.yml''"
    by simp
  from variables_file_path_resolution[OF sb, of None] ib
  have "var_path None ''config_variables.yml'' = join curdir ''config_variables.yml''"
    by simp
  with j2 have r3: "var_path None ''config_variables.yml'' = ''./config_variables.yml''"
    by simp
  from variables_file_path_resolution[OF sb, of "Some []"] ib
  have "var_path (Some []) ''config_variables.yml'' = join curdir ''config_variables.yml''"
    by simp
  with j2 have r4: "var_path (Some []) ''config_variables.yml'' = ''./config_variables.yml''"
    by simp
  from sa ia r1 sb ib r2 r3 r4 show ?thesis by blast
qed

text \<open>
  The two results of the loader that the expression \<^verbatim>\<open>dict(yaml.load(contents)) or {}\<close>
  meets: on an empty mapping the call goes on with \<^verbatim>\<open>{}\<close>; on \<^verbatim>\<open>None\<close> the call of
  \<^verbatim>\<open>dict\<close> raises before \<^verbatim>\<open>or\<close> is evaluated, and the handler does not catch a
  \<^verbatim>\<open>TypeError\<close>.
\<close>

lemma variables_file_empty_mapping:
  assumes "substitute_config_variable S path (os_environ w) = Inr defined_path"
    and "open_read w (var_path root defined_path) = Inr contents"
    and "yaml_load w contents = Inr (Some Map.empty)"
  shows "get_values w (ConfigurationVariablesConfigurationProvider_init S path root)
           = except_OSError
               (substitute_all_config_variables_dict S Map.empty (os_environ w))"
  using assms by (simp add: file_get_values_unfold dict_def)

lemma variables_file_null_document:
  assumes "substitute_config_variable S path (os_environ w) = Inr defined_path"
    and "open_read w (var_path root defined_path) = Inr contents"
    and "yaml_load w contents = Inr None"
  shows "get_values w (ConfigurationVariablesConfigurationProvider_init S path root)
           = Inl (TypeError ([CHR 0x27] @ ''NoneType'' @ [CHR 0x27]
                    @ '' object is not iterable''))"
  using assms by (simp add: file_get_values_unfold dict_def except_OSError_def)

text \<open>
  Claim C4. An empty or null result of the loader is to be taken as the empty mapping, so
  that \<^verbatim>\<open>get_values()\<close> goes on and returns it. For the empty mapping the code does so.
  For a variables file that exists and is empty the loader returns \<^verbatim>\<open>None\<close>, and
  \<^verbatim>\<open>get_values()\<close> raises \<^verbatim>\<open>TypeError\<close>: the \<^verbatim>\<open>or {}\<close> of line 160 stands outside the call
  of \<^verbatim>\<open>dict\<close>.
\<close>

theorem variables_file_null_document_type_error:
  "open_read (example_world Map.empty) (var_path None ''empty.yml'') = Inr []
   \<and> yaml_load (example_world Map.empty) [] = Inr None
   \<and> get_values (example_world Map.empty)
       (ConfigurationVariablesConfigurationProvider_init spec_substitutor ''empty.yml'' None)
     = Inl (TypeError ([CHR 0x27] @ ''NoneType'' @ [CHR 0x27] @ '' object is not iterable''))
   \<and> yaml_load (example_world Map.empty) ''{}'' = Inr (Some Map.empty)
   \<and> get_values (example_world Map.empty)
       (ConfigurationVariablesConfigurationProvider_init spec_substitutor
          ''config_variables.yml'' (Some ''/srv/project''))
     = Inr Map.empty"
  by (simp add: file_get_values_unfold dict_def except_OSError_def example_simps)

text \<open>
  Claim C9. The parsed mapping is handed to the substitutor once, with the process
  environment as the only source of values. With a substitutor that treats each entry on
  its own, an entry of the result is the substitution of that entry's value against the
  environment: the other entries of the file play no part, and a reference \<^verbatim>\<open>$A\<close> to a
  key that only the file defines is not resolved.
\<close>

theorem variables_file_substituted_against_environment_only:
  assumes "substitute_config_variable S path (os_environ w) = Inr defined_path"
    and "open_read w (var_path root defined_path) = Inr contents"
    and "yaml_load w contents = Inr (Some parsed)"
  shows "get_values w (ConfigurationVariablesConfigurationProvider_init S path root)
           = except_OSError
               (substitute_all_config_variables_dict S parsed (os_environ w))
       \<and> ((\<forall>d vs. substitute_all_config_variables_dict S d vs
                     = Inr (\<lambda>k. map_option (f vs) (d k))) \<longrightarrow>
            get_values w (ConfigurationVariablesConfigurationProvider_init S path root)
              = Inr (\<lambda>k. map_option (f (os_environ w)) (parsed k)))"
  using assms by (simp add: file_get_values_unfold dict_def except_OSError_def)

theorem variables_file_substituted_against_environment_only_witness:
  "substitute_config_variable spec_substitutor ''config_variables.yml''
       (os_environ (example_world Map.empty)) = Inr ''config_variables.yml''
   \<and> open_read (example_world Map.empty) (var_path None ''config_variables.yml'')
       = Inr ''{A: one, B: $A}''
   \<and> yaml_load (example_world Map.empty) ''{A: one, B: $A}''
       = Inr (Some [''A'' \<mapsto> ''one'', ''B'' \<mapsto> ''$A''])
   \<and> (\<forall>d vs. substitute_all_config_variables_dict spec_substitutor d vs
                = Inr (\<lambda>k. map_option (substitute_str vs) (d k)))
   \<and> (\<exists>m. get_values (example_world Map.empty)
              (ConfigurationVariablesConfigurationProvider_init spec_substitutor
                 ''config_variables.yml'' None) = Inr m
          \<and> m ''A'' = Some ''one'' \<and> m ''B'' = Some ''$A'')
   \<and> (\<exists>m. get_values (example_world [''A'' \<mapsto> ''from_env''])
              (ConfigurationVariablesConfigurationProvider_init spec_substitutor
                 ''config_variables.yml'' None) = Inr m
          \<and> m ''A'' = Some ''one'' \<and> m ''B'' = Some ''from_env'')"
proof -
  let ?parsed = "[''A'' \<mapsto> ''one'', ''B'' \<mapsto> ''$A'']"
  let ?self = "ConfigurationVariablesConfigurationProvider_init spec_substitutor
                 ''config_variables.yml'' None"
  have s: "\<And>env. substitute_config_variable spec_substitutor ''config_variables.yml''
             (os_environ (example_world env)) = Inr ''config_variables.yml''"
    by (simp add: example_simps)
  have o: "\<And>env. open_read (example_world env) (var_path None ''config_variables.yml'')
             = Inr ''{A: one, B: $A}''"
    by (simp add: example_simps)
  have y: "\<And>env. yaml_load (example_world env) ''{A: one, B: $A}'' = Inr (Some ?parsed)"
    by (simp add: example_simps)
  have f: "\<forall>d vs. substitute_all_config_variables_dict spec_substitutor d vs
                = Inr (\<lambda>k. map_option (substitute_str vs) (d k))"
    by (simp add: spec_substitutor_def)
  have e: "\<And>env. os_environ (example_world env) = env"
    by (simp add: example_world_def)
  have g: "\<And>env. get_values (example_world env) ?self
             = Inr (\<lambda>k. map_option (substitute_str env) (?parsed k))"
  proof -
    fix env
    from variables_file_substituted_against_environment_only[OF s o y, of env substitute_str] f
    have "get_values (example_world env) ?self
            = Inr (\<lambda>k. map_option (substitute_str (os_environ (example_world env)))
                     (?parsed k))"
      by blast
    then show "get_values (example_world env) ?self
             = Inr (\<lambda>k. map_option (substitute_str env) (?parsed k))"
      by (simp only: e)
  qed
  have r1: "\<exists>m. get_values (example_world Map.empty) ?self = Inr m
          \<and> m ''A'' = Some ''one'' \<and> m ''B'' = Some ''$A''"
    by (simp add: g substitute_str_def is_name_char_def placeholder_value_def)
  have r2: "\<exists>m. get_values (example_world [''A'' \<mapsto> ''from_env'']) ?self = Inr m
          \<and> m ''A'' = Some ''one'' \<and> m ''B'' = Some ''from_env''"
    by (simp add: g substitute_str_def is_name_char_def placeholder_value_def)
  from s[of Map.empty] o[of Map.empty] y[of Map.empty] f r1 r2 show ?thesis
    by blast
qed


end
